theory Spec2Isabelle
  imports Complex_Main "HOL-Library.Sublist"
begin

section \<open>Scoring engine of the Frellis Cup tournament application\<close>

text \<open>
  The development embeds the pure scoring functions of \<^verbatim>\<open>src/tournamentPrototype.js\<close> and
  \<^verbatim>\<open>src/TournamentApp.jsx\<close>. The functions \<^verbatim>\<open>stablefordFromDiff\<close>,
  \<^verbatim>\<open>strokesReceivedOnHole\<close>, \<^verbatim>\<open>netScore\<close> and \<^verbatim>\<open>matchStatusFromHoles\<close> have the same text
  in both files and are embedded once. \<^verbatim>\<open>pointsForFinalMatch\<close> differs between the two files
  and is embedded twice.

  JavaScript numbers that hold stroke counts, hole tallies and point totals are integers far
  below \<open>2^53\<close> and are modelled as \<open>int\<close>; the match points 0, 0.5 and 1 are modelled as
  \<open>rat\<close>. \<^verbatim>\<open>null\<close> and \<^verbatim>\<open>undefined\<close> are \<open>None\<close>. A plain object used as a dictionary is a
  map of its own properties: player and side ids are taken not to be names of properties that
  every object inherits, such as \<^verbatim>\<open>constructor\<close>.
\<close>

subsection \<open>Numbers to text\<close>

text \<open>Template literals print an integer in decimal, with a leading minus sign when negative.\<close>

definition digit_char :: "nat \<Rightarrow> char" where
  "digit_char d = char_of (48 + d)"

function showNat :: "nat \<Rightarrow> string" where
  "showNat n = (if n < 10 then [digit_char n] else showNat (n div 10) @ [digit_char (n mod 10)])"
  by pat_completeness auto
termination
  by (relation "measure (\<lambda>n. n)") auto

declare showNat.simps [simp del]

definition showInt :: "int \<Rightarrow> string" where
  "showInt i = (if i < 0 then CHR ''-'' # showNat (nat (- i)) else showNat (nat i))"

text \<open>The en dash U+2013 and the em dash U+2014 of the status labels, as UTF-8 bytes.\<close>

definition en_dash :: string where
  "en_dash = [char_of (0xE2::nat), char_of (0x80::nat), char_of (0x93::nat)]"

definition em_dash :: string where
  "em_dash = [char_of (0xE2::nat), char_of (0x80::nat), char_of (0x94::nat)]"

text \<open>\<^verbatim>\<open>String.prototype.includes\<close>: the needle occurs somewhere in the text.\<close>

fun includes_str :: "string \<Rightarrow> string \<Rightarrow> bool" where
  "includes_str [] needle = (needle = [])"
| "includes_str (c # cs) needle =
     (take (length needle) (c # cs) = needle \<or> includes_str cs needle)"

subsection \<open>Stableford points and handicap strokes\<close>

fun stablefordFromDiff :: "int \<Rightarrow> int" where
  "stablefordFromDiff diff =
     (if diff \<le> -3 then 10
      else if diff = -2 then 6
      else if diff = -1 then 3
      else if diff = 0 then 1
      else if diff = 1 then -1
      else -2)"

text \<open>
  The remainder operator \<^verbatim>\<open>%\<close> of JavaScript truncates towards zero: the result has the sign
  of the dividend. \<^verbatim>\<open>Math.floor(x / 18)\<close> is the floor of the quotient.
\<close>

definition js_rem :: "int \<Rightarrow> int \<Rightarrow> int" where
  "js_rem a n = (if a < 0 then - ((- a) mod \<bar>n\<bar>) else a mod \<bar>n\<bar>)"

definition strokesReceivedOnHole :: "int \<Rightarrow> int \<Rightarrow> int" where
  "strokesReceivedOnHole courseHcp holeHcpRank =
     (let full = \<lfloor>(of_int courseHcp :: rat) / 18\<rfloor>;
          rem = js_rem courseHcp 18;
          extra = (if holeHcpRank \<le> rem then 1 else 0)
      in full + extra)"

definition netScore :: "int option \<Rightarrow> int \<Rightarrow> int \<Rightarrow> int option" where
  "netScore gross courseHcp holeHcpRank =
     (case gross of
        None \<Rightarrow> None
      | Some g \<Rightarrow> (let sr = strokesReceivedOnHole courseHcp holeHcpRank in Some (g - sr)))"

subsection \<open>Match status of the holes-based formats\<close>

record holeOutcome =
  played :: bool
  winnerSideId :: "string option"

text \<open>
  A status object. The holes-based tracker sets \<open>aHoles\<close> and \<open>bHoles\<close>, the points-based
  tracker sets \<open>aTotalPts\<close> and \<open>bTotalPts\<close>; a property an object lacks is \<open>None\<close>.
\<close>

record matchStatus =
  aHoles :: "int option"
  bHoles :: "int option"
  status_played :: int
  isFinal :: bool
  status_text :: string
  leaderSideId :: "string option"
  isTied :: bool
  aTotalPts :: "int option"
  bTotalPts :: "int option"

text \<open>The \<^verbatim>\<open>for\<close> loop of \<^verbatim>\<open>matchStatusFromHoles\<close>, on the triple \<open>(a, b, played)\<close>.\<close>

fun tallyHoles :: "string \<Rightarrow> string \<Rightarrow> holeOutcome list \<Rightarrow> int \<times> int \<times> int \<Rightarrow> int \<times> int \<times> int" where
  "tallyHoles sideAId sideBId [] acc = acc"
| "tallyHoles sideAId sideBId (h # hs) (a, b, n) =
     (if \<not> played h then tallyHoles sideAId sideBId hs (a, b, n)
      else if winnerSideId h = Some sideAId then tallyHoles sideAId sideBId hs (a + 1, b, n + 1)
      else if winnerSideId h = Some sideBId then tallyHoles sideAId sideBId hs (a, b + 1, n + 1)
      else tallyHoles sideAId sideBId hs (a, b, n + 1))"

definition matchStatusFromHoles :: "holeOutcome list \<Rightarrow> string \<Rightarrow> string \<Rightarrow> matchStatus" where
  "matchStatusFromHoles holes sideAId sideBId =
     (case tallyHoles sideAId sideBId holes (0, 0, 0) of (a, b, n) \<Rightarrow>
        let remaining = 18 - n;
            diff = a - b;
            abs = \<bar>diff\<bar>;
            leader = (if diff > 0 then ''A'' else if diff < 0 then ''B'' else ''AS'')
        in
        if abs > remaining \<and> n > 0 then
          \<lparr> aHoles = Some a, bHoles = Some b, status_played = n, isFinal = True,
            status_text = (if leader = ''AS'' then ''Final (Tied)''
                           else ''Final '' @ showInt abs @ ''&'' @ showInt remaining),
            leaderSideId = Some (if diff > 0 then sideAId else sideBId),
            isTied = False, aTotalPts = None, bTotalPts = None \<rparr>
        else if n = 0 then
          \<lparr> aHoles = Some 0, bHoles = Some 0, status_played = 0, isFinal = False,
            status_text = ''Not Started'', leaderSideId = None,
            isTied = True, aTotalPts = None, bTotalPts = None \<rparr>
        else if n = 18 then
          (if diff = 0 then
             \<lparr> aHoles = Some a, bHoles = Some b, status_played = n, isFinal = True,
               status_text = ''Final (Tied)'', leaderSideId = None,
               isTied = True, aTotalPts = None, bTotalPts = None \<rparr>
           else
             \<lparr> aHoles = Some a, bHoles = Some b, status_played = n, isFinal = True,
               status_text = ''Final '' @ showInt abs @ '' Up'',
               leaderSideId = Some (if diff > 0 then sideAId else sideBId),
               isTied = False, aTotalPts = None, bTotalPts = None \<rparr>)
        else if diff = 0 then
          \<lparr> aHoles = Some a, bHoles = Some b, status_played = n, isFinal = False,
            status_text = ''AS Thru '' @ showInt n, leaderSideId = None,
            isTied = True, aTotalPts = None, bTotalPts = None \<rparr>
        else
          \<lparr> aHoles = Some a, bHoles = Some b, status_played = n, isFinal = False,
            status_text = showInt abs @ '' Up Thru '' @ showInt n,
            leaderSideId = Some (if diff > 0 then sideAId else sideBId),
            isTied = False, aTotalPts = None, bTotalPts = None \<rparr>)"

subsection \<open>Points of a match\<close>

record side =
  side_id :: string
  teamId :: string
  playerIds :: "string list"

text \<open>
  The result object \<^verbatim>\<open>{ [k1]: v1, [k2]: v2 }\<close> is a map from team ids to points; a later
  computed key overwrites an equal earlier one.
\<close>

definition pointsObject :: "string \<Rightarrow> rat \<Rightarrow> string \<Rightarrow> rat \<Rightarrow> (string \<rightharpoonup> rat)" where
  "pointsObject k1 v1 k2 v2 = (Map.empty(k1 \<mapsto> v1))(k2 \<mapsto> v2)"

text \<open>\<^verbatim>\<open>pointsForFinalMatch\<close> of \<^verbatim>\<open>src/TournamentApp.jsx\<close>: a tie is read from \<open>isTied\<close>.\<close>

definition pointsForFinalMatch :: "matchStatus \<Rightarrow> side \<Rightarrow> side \<Rightarrow> (string \<rightharpoonup> rat)" where
  "pointsForFinalMatch status sA sB =
     (if \<not> isFinal status then pointsObject (teamId sA) 0 (teamId sB) 0
      else if isTied status then pointsObject (teamId sA) (1/2) (teamId sB) (1/2)
      else
        let winnerSide = leaderSideId status;
            winnerTeam = (if winnerSide = Some (side_id sA) then teamId sA else teamId sB);
            loserTeam = (if winnerTeam = teamId sA then teamId sB else teamId sA)
        in pointsObject winnerTeam 1 loserTeam 0)"

text \<open>
  \<^verbatim>\<open>pointsForFinalMatch\<close> of \<^verbatim>\<open>src/tournamentPrototype.js\<close>: a tie is read from the label,
  \<^verbatim>\<open>status.text.includes("Tied")\<close>.
\<close>

definition pointsForFinalMatch_prototype :: "matchStatus \<Rightarrow> side \<Rightarrow> side \<Rightarrow> (string \<rightharpoonup> rat)" where
  "pointsForFinalMatch_prototype status sA sB =
     (if \<not> isFinal status then pointsObject (teamId sA) 0 (teamId sB) 0
      else if includes_str (status_text status) ''Tied'' then
        pointsObject (teamId sA) (1/2) (teamId sB) (1/2)
      else
        let winnerSide = leaderSideId status;
            winnerTeam = (if winnerSide = Some (side_id sA) then teamId sA else teamId sB);
            loserTeam = (if winnerTeam = teamId sA then teamId sB else teamId sA)
        in pointsObject winnerTeam 1 loserTeam 0)"

text \<open>Reading a team's points as \<^verbatim>\<open>computeTournamentTotals\<close> does: \<^verbatim>\<open>pts.JC ?? 0\<close>.\<close>

definition pointsOf :: "(string \<rightharpoonup> rat) \<Rightarrow> string \<Rightarrow> rat" where
  "pointsOf pts team = (case pts team of None \<Rightarrow> 0 | Some v \<Rightarrow> v)"

subsection \<open>Per-hole results\<close>

text \<open>
  A hole of a course, a player of the roster and a match. Of a match only the properties the
  scoring reads are kept. A gross-score store maps a player or side id to a map from hole numbers
  to strokes; a match object may lack the store of another format.
\<close>

record holeMeta =
  hole :: int
  par :: int
  hcpRank :: int

record player =
  player_id :: string
  player_teamId :: string
  courseHcp :: int

datatype format = FOURBALL_NET | SCRAMBLE_STABLEFORD | SINGLES_NET

type_synonym grossStore = "string \<rightharpoonup> (int \<rightharpoonup> int)"

record match =
  format :: format
  sideA :: side
  sideB :: side
  fourballGrossByPlayer :: "grossStore option"
  scrambleGrossBySide :: "grossStore option"
  singlesGrossByPlayer :: "grossStore option"

text \<open>An entry \<^verbatim>\<open>{ pid, gross, net }\<close> of the fourball computation.\<close>

record netEntry =
  pid :: string
  gross :: "int option"
  net :: "int option"

text \<open>The \<^verbatim>\<open>details\<close> object of a hole result, tagged by its \<^verbatim>\<open>type\<close> property.\<close>

datatype details =
    Fourball "netEntry option" "netEntry option"
  | Scramble "int option" "int option" "int option" "int option"
  | Singles "int option" "int option" "int option" "int option"

record holeResult =
  res_hole :: int
  res_played :: bool
  res_winnerSideId :: "string option"
  res_details :: details

text \<open>The only exception the per-hole code can raise on objects of these types.\<close>

datatype error = TypeError

text \<open>\<^verbatim>\<open>store?.[key]?.[hole] ?? null\<close>\<close>

definition grossAt :: "grossStore option \<Rightarrow> string \<Rightarrow> int \<Rightarrow> int option" where
  "grossAt store key h =
     (case store of
        None \<Rightarrow> None
      | Some byKey \<Rightarrow> (case byKey key of None \<Rightarrow> None | Some byHole \<Rightarrow> byHole h))"

text \<open>A relational comparison converts \<^verbatim>\<open>null\<close> to the number 0.\<close>

definition toNumber :: "int option \<Rightarrow> int" where
  "toNumber v = (case v of None \<Rightarrow> 0 | Some n \<Rightarrow> n)"

text \<open>
  \<^verbatim>\<open>playerIds[0]\<close> is \<^verbatim>\<open>undefined\<close> on an empty array, and \<^verbatim>\<open>undefined\<close> used as a
  property key is the string \<^verbatim>\<open>"undefined"\<close>.
\<close>

definition firstKey :: "string list \<Rightarrow> string" where
  "firstKey pids = (case pids of [] \<Rightarrow> ''undefined'' | p # _ \<Rightarrow> p)"

text \<open>The \<^verbatim>\<open>map\<close> and \<^verbatim>\<open>filter\<close> that build \<^verbatim>\<open>aNets\<close> and \<^verbatim>\<open>bNets\<close>.\<close>

definition sideNets :: "match \<Rightarrow> (string \<rightharpoonup> player) \<Rightarrow> holeMeta \<Rightarrow> string list \<Rightarrow> netEntry list" where
  "sideNets m playersById h pids =
     filter (\<lambda>x. gross x \<noteq> None \<and> net x \<noteq> None)
       (map (\<lambda>p.
               let g = grossAt (fourballGrossByPlayer m) p (hole h);
                   n = (case playersById p of
                          None \<Rightarrow> None
                        | Some pl \<Rightarrow> netScore g (courseHcp pl) (hcpRank h))
               in \<lparr> pid = p, gross = g, net = n \<rparr>)
            pids)"

text \<open>The \<^verbatim>\<open>reduce\<close> that picks the best entry, starting from \<^verbatim>\<open>null\<close>.\<close>

definition bestStep :: "netEntry option \<Rightarrow> netEntry \<Rightarrow> netEntry option" where
  "bestStep best cur =
     (case best of
        None \<Rightarrow> Some cur
      | Some b \<Rightarrow> if toNumber (net cur) < toNumber (net b) then Some cur else Some b)"

definition bestOf :: "netEntry list \<Rightarrow> netEntry option" where
  "bestOf xs = foldl bestStep None xs"

text \<open>
  The body of the callback of \<^verbatim>\<open>computeMatchHoles\<close> for one hole. Reading \<^verbatim>\<open>aBest.net\<close>
  raises a \<^verbatim>\<open>TypeError\<close> when \<^verbatim>\<open>aBest\<close> is \<^verbatim>\<open>null\<close>.
\<close>

definition computeHole :: "match \<Rightarrow> (string \<rightharpoonup> player) \<Rightarrow> holeMeta \<Rightarrow> error + holeResult" where
  "computeHole m playersById h =
     (if format m = FOURBALL_NET then
        let aNets = sideNets m playersById h (playerIds (sideA m));
            bNets = sideNets m playersById h (playerIds (sideB m))
        in
        if length aNets = 0 \<or> length bNets = 0 then
          Inr \<lparr> res_hole = hole h, res_played = False, res_winnerSideId = None,
                res_details = Fourball None None \<rparr>
        else
          (case (bestOf aNets, bestOf bNets) of
             (Some aBest, Some bBest) \<Rightarrow>
               let winner =
                     (if toNumber (net aBest) < toNumber (net bBest) then Some (side_id (sideA m))
                      else if toNumber (net bBest) < toNumber (net aBest) then Some (side_id (sideB m))
                      else None)
               in Inr \<lparr> res_hole = hole h, res_played = True, res_winnerSideId = winner,
                        res_details = Fourball (Some aBest) (Some bBest) \<rparr>
           | _ \<Rightarrow> Inl TypeError)
      else if format m = SCRAMBLE_STABLEFORD then
        let aGross = grossAt (scrambleGrossBySide m) (side_id (sideA m)) (hole h);
            bGross = grossAt (scrambleGrossBySide m) (side_id (sideB m)) (hole h)
        in
        (case (aGross, bGross) of
           (Some ag, Some bg) \<Rightarrow>
             let aPts = stablefordFromDiff (ag - par h);
                 bPts = stablefordFromDiff (bg - par h);
                 winner =
                   (if aPts > bPts then Some (side_id (sideA m))
                    else if bPts > aPts then Some (side_id (sideB m))
                    else None)
             in Inr \<lparr> res_hole = hole h, res_played = True, res_winnerSideId = winner,
                      res_details = Scramble (Some ag) (Some bg) (Some aPts) (Some bPts) \<rparr>
         | _ \<Rightarrow>
             Inr \<lparr> res_hole = hole h, res_played = False, res_winnerSideId = None,
                   res_details = Scramble None None None None \<rparr>)
      else
        let aPid = firstKey (playerIds (sideA m));
            bPid = firstKey (playerIds (sideB m));
            aGross = grossAt (singlesGrossByPlayer m) aPid (hole h);
            bGross = grossAt (singlesGrossByPlayer m) bPid (hole h)
        in
        if aGross = None \<or> bGross = None then
          Inr \<lparr> res_hole = hole h, res_played = False, res_winnerSideId = None,
                res_details = Singles None None None None \<rparr>
        else
          let aNet = (case playersById aPid of
                        None \<Rightarrow> None
                      | Some aP \<Rightarrow> netScore aGross (courseHcp aP) (hcpRank h));
              bNet = (case playersById bPid of
                        None \<Rightarrow> None
                      | Some bP \<Rightarrow> netScore bGross (courseHcp bP) (hcpRank h));
              winner =
                (case (aNet, bNet) of
                   (Some an, Some bn) \<Rightarrow>
                     if an < bn then Some (side_id (sideA m))
                     else if bn < an then Some (side_id (sideB m))
                     else None
                 | _ \<Rightarrow> None)
          in Inr \<lparr> res_hole = hole h, res_played = True, res_winnerSideId = winner,
                   res_details = Singles aGross bGross aNet bNet \<rparr>)"

text \<open>\<^verbatim>\<open>holes.map(...)\<close>: an exception in one callback aborts the whole call.\<close>

fun mapE :: "('a \<Rightarrow> error + 'b) \<Rightarrow> 'a list \<Rightarrow> error + 'b list" where
  "mapE f [] = Inr []"
| "mapE f (x # xs) =
     (case f x of
        Inl e \<Rightarrow> Inl e
      | Inr y \<Rightarrow> (case mapE f xs of Inl e \<Rightarrow> Inl e | Inr ys \<Rightarrow> Inr (y # ys)))"

definition computeMatchHoles :: "match \<Rightarrow> holeMeta list \<Rightarrow> (string \<rightharpoonup> player) \<Rightarrow> error + holeResult list" where
  "computeMatchHoles m holes playersById = mapE (computeHole m playersById) holes"

subsection \<open>Match status of the scramble format\<close>

text \<open>The \<^verbatim>\<open>for\<close> loop of \<^verbatim>\<open>stablefordTotalsStatusFromHoles\<close>, on \<open>(aTotal, bTotal, played)\<close>.\<close>

fun tallyPoints :: "holeResult list \<Rightarrow> int \<times> int \<times> int \<Rightarrow> int \<times> int \<times> int" where
  "tallyPoints [] acc = acc"
| "tallyPoints (h # hs) (aTotal, bTotal, n) =
     (if \<not> res_played h then tallyPoints hs (aTotal, bTotal, n)
      else
        (case res_details h of
           Scramble ag bg (Some aPts) (Some bPts) \<Rightarrow>
             tallyPoints hs (aTotal + aPts, bTotal + bPts, n + 1)
         | _ \<Rightarrow> tallyPoints hs (aTotal, bTotal, n)))"

definition stablefordTotalsStatusFromHoles :: "holeResult list \<Rightarrow> string \<Rightarrow> string \<Rightarrow> matchStatus" where
  "stablefordTotalsStatusFromHoles matchHoles sideAId sideBId =
     (case tallyPoints matchHoles (0, 0, 0) of (aTotal, bTotal, n) \<Rightarrow>
        if n = 0 then
          \<lparr> aHoles = None, bHoles = None, status_played = 0, isFinal = False,
            status_text = em_dash, leaderSideId = None, isTied = True,
            aTotalPts = Some 0, bTotalPts = Some 0 \<rparr>
        else
          let diff = aTotal - bTotal;
              leader = (if diff > 0 then Some sideAId else if diff < 0 then Some sideBId else None);
              tied = (diff = 0)
          in
          \<lparr> aHoles = None, bHoles = None, status_played = n, isFinal = (n = 18),
            status_text = showInt aTotal @ en_dash @ showInt bTotal,
            leaderSideId = leader, isTied = tied,
            aTotalPts = Some aTotal, bTotalPts = Some bTotal \<rparr>)"

subsection \<open>Status and points of a match card\<close>

text \<open>
  The projection \<^verbatim>\<open>mh.map((x) => ({ played: x.played, winnerSideId: x.winnerSideId }))\<close>,
  the choice of the tracker by format and the points, as \<^verbatim>\<open>computeTournamentTotals\<close> and
  the match page compute them for one match.
\<close>

definition toOutcome :: "holeResult \<Rightarrow> holeOutcome" where
  "toOutcome x = \<lparr> played = res_played x, winnerSideId = res_winnerSideId x \<rparr>"

definition matchCardStatus :: "match \<Rightarrow> holeMeta list \<Rightarrow> (string \<rightharpoonup> player) \<Rightarrow> error + matchStatus" where
  "matchCardStatus m holes playersById =
     (case computeMatchHoles m holes playersById of
        Inl e \<Rightarrow> Inl e
      | Inr mh \<Rightarrow>
          Inr (if format m = SCRAMBLE_STABLEFORD
               then stablefordTotalsStatusFromHoles mh (side_id (sideA m)) (side_id (sideB m))
               else matchStatusFromHoles (map toOutcome mh) (side_id (sideA m)) (side_id (sideB m))))"

definition matchCardPoints :: "match \<Rightarrow> holeMeta list \<Rightarrow> (string \<rightharpoonup> player) \<Rightarrow> error + (string \<rightharpoonup> rat)" where
  "matchCardPoints m holes playersById =
     (case matchCardStatus m holes playersById of
        Inl e \<Rightarrow> Inl e
      | Inr status \<Rightarrow> Inr (pointsForFinalMatch status (sideA m) (sideB m)))"

text \<open>
  The accumulation of one day in \<^verbatim>\<open>computeTournamentTotals\<close>: for each match
  \<^verbatim>\<open>jc += pts.JC ?? 0; sg += pts.SG ?? 0\<close>, on the pair \<open>(jc, sg)\<close>.
\<close>

fun dayPoints :: "match list \<Rightarrow> holeMeta list \<Rightarrow> (string \<rightharpoonup> player) \<Rightarrow> rat \<times> rat \<Rightarrow> error + rat \<times> rat" where
  "dayPoints [] holes playersById acc = Inr acc"
| "dayPoints (m # ms) holes playersById (jc, sg) =
     (case matchCardPoints m holes playersById of
        Inl e \<Rightarrow> Inl e
      | Inr pts \<Rightarrow> dayPoints ms holes playersById (jc + pointsOf pts ''JC'', sg + pointsOf pts ''SG''))"

subsection \<open>Writing a score\<close>

text \<open>
  \<^verbatim>\<open>setFourballGross\<close>, \<^verbatim>\<open>setSinglesGross\<close> and \<^verbatim>\<open>setScrambleGross\<close> of the match page
  build the next store in the same way: copy the store (or \<^verbatim>\<open>{}\<close>), copy the entry of the key
  (or \<^verbatim>\<open>{}\<close>), delete the hole when the new gross is \<^verbatim>\<open>null\<close> and set it otherwise.
\<close>

definition setGross :: "grossStore option \<Rightarrow> string \<Rightarrow> int \<Rightarrow> int option \<Rightarrow> grossStore option" where
  "setGross store key holeNum g =
     (let next = (case store of None \<Rightarrow> Map.empty | Some s \<Rightarrow> s);
          per = (case next key of None \<Rightarrow> Map.empty | Some byHole \<Rightarrow> byHole);
          per' = (case g of None \<Rightarrow> per(holeNum := None) | Some v \<Rightarrow> per(holeNum \<mapsto> v))
      in Some (next(key \<mapsto> per')))"

subsection \<open>Courses and sample roster\<close>

text \<open>
  \<^verbatim>\<open>holesFromParAndHcp\<close> numbers the holes from 1. Both arrays of every course have 18
  entries; a rank missing from a shorter second array is not represented.
\<close>

definition holesFromParAndHcp :: "int list \<Rightarrow> int list \<Rightarrow> holeMeta list" where
  "holesFromParAndHcp parArr hcpArr =
     map (\<lambda>(i, p, r). \<lparr> hole = int i + 1, par = p, hcpRank = r \<rparr>)
         (zip [0 ..< length parArr] (zip parArr hcpArr))"

definition course1 :: "holeMeta list" where
  "course1 = holesFromParAndHcp
     [4, 4, 5, 4, 3, 4, 4, 3, 5, 4, 5, 4, 3, 5, 3, 4, 4, 4]
     [12, 8, 2, 16, 18, 10, 4, 14, 6, 11, 5, 9, 17, 1, 13, 15, 3, 7]"

definition course2 :: "holeMeta list" where
  "course2 = holesFromParAndHcp
     [4, 5, 3, 4, 5, 3, 5, 4, 3, 4, 3, 4, 4, 4, 5, 3, 4, 5]
     [11, 9, 15, 3, 7, 13, 1, 5, 17, 4, 12, 2, 18, 8, 16, 6, 14, 10]"

text \<open>Four players of \<^verbatim>\<open>makeInitialTournament\<close>, with the handicaps of the sample roster.\<close>

definition samplePlayers :: "string \<rightharpoonup> player" where
  "samplePlayers = map_of
     [(''p1'', \<lparr> player_id = ''p1'', player_teamId = ''JC'', courseHcp = 13 \<rparr>),
      (''p2'', \<lparr> player_id = ''p2'', player_teamId = ''JC'', courseHcp = 8 \<rparr>),
      (''p11'', \<lparr> player_id = ''p11'', player_teamId = ''SG'', courseHcp = 23 \<rparr>),
      (''p12'', \<lparr> player_id = ''p12'', player_teamId = ''SG'', courseHcp = 3 \<rparr>)]"

text \<open>The strokes of holes 1, 2, ... as the entry of one player or side.\<close>

definition grossByHole :: "int list \<Rightarrow> (int \<rightharpoonup> int)" where
  "grossByHole strokes = map_of (zip [1 .. int (length strokes)] strokes)"

text \<open>
  Match 1 of day 1 with hole 1 entered for three of the four players; match 1 of day 2 with
  all 18 holes entered, each side two bogeys and sixteen pars on course 2; a singles match whose
  side A names a player the roster does not have, with all 18 holes entered for both players.
\<close>

definition sampleFourball :: match where
  "sampleFourball =
     \<lparr> format = FOURBALL_NET,
       sideA = \<lparr> side_id = ''d1m1-A'', teamId = ''JC'', playerIds = [''p1'', ''p2''] \<rparr>,
       sideB = \<lparr> side_id = ''d1m1-B'', teamId = ''SG'', playerIds = [''p11'', ''p12''] \<rparr>,
       fourballGrossByPlayer = Some (map_of [(''p1'', grossByHole [5]), (''p11'', grossByHole [6]),
                                             (''p12'', grossByHole [5])]),
       scrambleGrossBySide = None, singlesGrossByPlayer = None \<rparr>"

definition sampleScramble :: match where
  "sampleScramble =
     \<lparr> format = SCRAMBLE_STABLEFORD,
       sideA = \<lparr> side_id = ''d2m1-A'', teamId = ''JC'', playerIds = [''p1'', ''p2''] \<rparr>,
       sideB = \<lparr> side_id = ''d2m1-B'', teamId = ''SG'', playerIds = [''p11'', ''p12''] \<rparr>,
       fourballGrossByPlayer = None,
       scrambleGrossBySide = Some (map_of
         [(''d2m1-A'', grossByHole [5, 6, 3, 4, 5, 3, 5, 4, 3, 4, 3, 4, 4, 4, 5, 3, 4, 5]),
          (''d2m1-B'', grossByHole [4, 5, 3, 4, 5, 3, 5, 4, 3, 4, 3, 4, 4, 4, 5, 3, 5, 6])]),
       singlesGrossByPlayer = None \<rparr>"

definition sampleSingles :: match where
  "sampleSingles =
     \<lparr> format = SINGLES_NET,
       sideA = \<lparr> side_id = ''d3m1-A'', teamId = ''JC'', playerIds = [''p99''] \<rparr>,
       sideB = \<lparr> side_id = ''d3m1-B'', teamId = ''SG'', playerIds = [''p11''] \<rparr>,
       fourballGrossByPlayer = None, scrambleGrossBySide = None,
       singlesGrossByPlayer = Some (map_of
         [(''p99'', grossByHole [5, 5, 5, 5, 5, 5, 5, 5, 5, 5, 5, 5, 5, 5, 5, 5, 5, 5]),
          (''p11'', grossByHole [6, 6, 6, 6, 6, 6, 6, 6, 6, 6, 6, 6, 6, 6, 6, 6, 6, 6])]) \<rparr>"

text \<open>
  A fourball match whose side A names a player the roster does not have, the only player of
  that side with a gross entered on hole 1. And the sample fourball match after its entries
  were written and deleted again, one by one.
\<close>

definition ghostFourball :: match where
  "ghostFourball =
     \<lparr> format = FOURBALL_NET,
       sideA = \<lparr> side_id = ''d1m1-A'', teamId = ''JC'', playerIds = [''p1'', ''p99''] \<rparr>,
       sideB = \<lparr> side_id = ''d1m1-B'', teamId = ''SG'', playerIds = [''p11'', ''p12''] \<rparr>,
       fourballGrossByPlayer = Some (map_of [(''p99'', grossByHole [3]), (''p11'', grossByHole [6]),
                                             (''p12'', grossByHole [5])]),
       scrambleGrossBySide = None, singlesGrossByPlayer = None \<rparr>"

definition clearedFourball :: match where
  "clearedFourball =
     sampleFourball\<lparr> fourballGrossByPlayer :=
       setGross (setGross (setGross (setGross (Some Map.empty)
         ''p1'' 1 (Some 5)) ''p11'' 1 (Some 6)) ''p11'' 1 None) ''p1'' 1 None \<rparr>"

text \<open>The status of the sample scramble match: final, tied, labelled with the two totals.\<close>

definition tiedTotalsStatus :: matchStatus where
  "tiedTotalsStatus =
     \<lparr> aHoles = None, bHoles = None, status_played = 18, isFinal = True,
       status_text = ''14'' @ en_dash @ ''14'', leaderSideId = None, isTied = True,
       aTotalPts = Some 14, bTotalPts = Some 14 \<rparr>"

text \<open>
  Ten holes won by side A and eight holes without an outcome; ten holes won by side A and
  eight by side B.
\<close>

definition closeoutHoles :: "string \<Rightarrow> holeOutcome list" where
  "closeoutHoles sideAId =
     replicate 10 \<lparr> played = True, winnerSideId = Some sideAId \<rparr> @
     replicate 8 \<lparr> played = False, winnerSideId = None \<rparr>"


subsection \<open>Notions of the specification\<close>

text \<open>
  The quantities the specification speaks of, defined on their own and not through the loops
  of the program: holes won by a side, holes played, the players of a side whose gross is
  entered on a hole, those of them the roster has, their net scores and the best of them, the
  holes of a scramble match with both entries and the sum of a side's points over them.
\<close>

definition holesWonBy :: "string \<Rightarrow> holeOutcome list \<Rightarrow> int" where
  "holesWonBy sideId holes =
     int (length (filter (\<lambda>h. played h \<and> winnerSideId h = Some sideId) holes))"

definition holesPlayed :: "holeOutcome list \<Rightarrow> int" where
  "holesPlayed holes = int (length (filter played holes))"

definition entered :: "match \<Rightarrow> holeMeta \<Rightarrow> string \<Rightarrow> bool" where
  "entered m h p = (grossAt (fourballGrossByPlayer m) p (hole h) \<noteq> None)"

definition enteredPlayers :: "match \<Rightarrow> holeMeta \<Rightarrow> string list \<Rightarrow> string list" where
  "enteredPlayers m h pids = filter (entered m h) pids"

definition netOf :: "match \<Rightarrow> (string \<rightharpoonup> player) \<Rightarrow> holeMeta \<Rightarrow> string \<Rightarrow> int" where
  "netOf m playersById h p =
     (case (grossAt (fourballGrossByPlayer m) p (hole h), playersById p) of
        (Some g, Some pl) \<Rightarrow> g - strokesReceivedOnHole (courseHcp pl) (hcpRank h)
      | _ \<Rightarrow> 0)"

definition countedPlayers :: "match \<Rightarrow> (string \<rightharpoonup> player) \<Rightarrow> holeMeta \<Rightarrow> string list \<Rightarrow> string list" where
  "countedPlayers m playersById h pids =
     filter (\<lambda>p. entered m h p \<and> playersById p \<noteq> None) pids"

definition bestBall :: "match \<Rightarrow> (string \<rightharpoonup> player) \<Rightarrow> holeMeta \<Rightarrow> string list \<Rightarrow> int" where
  "bestBall m playersById h pids =
     Min (set (map (netOf m playersById h) (countedPlayers m playersById h pids)))"

definition scrambleEntered :: "match \<Rightarrow> holeMeta \<Rightarrow> bool" where
  "scrambleEntered m h =
     (grossAt (scrambleGrossBySide m) (side_id (sideA m)) (hole h) \<noteq> None \<and>
      grossAt (scrambleGrossBySide m) (side_id (sideB m)) (hole h) \<noteq> None)"

definition scramblePoints :: "match \<Rightarrow> side \<Rightarrow> holeMeta \<Rightarrow> int" where
  "scramblePoints m sd h =
     (case grossAt (scrambleGrossBySide m) (side_id sd) (hole h) of
        None \<Rightarrow> 0
      | Some g \<Rightarrow> stablefordFromDiff (g - par h))"

definition scramblePlayedHoles :: "match \<Rightarrow> holeMeta list \<Rightarrow> holeMeta list" where
  "scramblePlayedHoles m holes = filter (scrambleEntered m) holes"

definition scrambleTotal :: "match \<Rightarrow> side \<Rightarrow> holeMeta list \<Rightarrow> int" where
  "scrambleTotal m sd holes = sum_list (map (scramblePoints m sd) (scramblePlayedHoles m holes))"

text \<open>
  A store without the entries of players the roster does not have; a key a store does not
  have; a store in which no gross is entered; a match as it is before any score is entered
  (\<^verbatim>\<open>makeInitialTournament\<close> creates the store as \<^verbatim>\<open>{}\<close>); the matches of a list whose
  status is final.
\<close>

definition withoutUnknownPlayers :: "(string \<rightharpoonup> player) \<Rightarrow> grossStore option \<Rightarrow> grossStore option" where
  "withoutUnknownPlayers playersById store = map_option (\<lambda>s. s |` dom playersById) store"

definition keyAbsent :: "grossStore option \<Rightarrow> string \<Rightarrow> bool" where
  "keyAbsent store key = (case store of None \<Rightarrow> True | Some s \<Rightarrow> s key = None)"

definition noEntries :: "grossStore option \<Rightarrow> bool" where
  "noEntries store = (\<forall>key h. grossAt store key h = None)"

definition neverScored :: "match \<Rightarrow> match" where
  "neverScored m =
     m\<lparr> fourballGrossByPlayer := Some Map.empty, scrambleGrossBySide := Some Map.empty,
        singlesGrossByPlayer := Some Map.empty \<rparr>"

definition matchIsFinal :: "holeMeta list \<Rightarrow> (string \<rightharpoonup> player) \<Rightarrow> match \<Rightarrow> bool" where
  "matchIsFinal holes playersById m =
     (case matchCardStatus m holes playersById of Inl e \<Rightarrow> False | Inr st \<Rightarrow> isFinal st)"

definition finalMatches :: "match list \<Rightarrow> holeMeta list \<Rightarrow> (string \<rightharpoonup> player) \<Rightarrow> nat" where
  "finalMatches ms holes playersById = length (filter (matchIsFinal holes playersById) ms)"

section \<open>Properties of the scoring engine\<close>

subsection \<open>Auxiliary facts\<close>

lemma includes_str_sublist: "includes_str h n \<longleftrightarrow> sublist n h"
proof (induction h)
  case Nil
  then show ?case by auto
next
  case (Cons c cs)
  have "sublist n (c # cs) \<longleftrightarrow> prefix n (c # cs) \<or> sublist n cs"
    by (simp add: sublist_Cons_right)
  moreover have "prefix n (c # cs) \<longleftrightarrow> take (length n) (c # cs) = n"
    by (metis prefix_def append_eq_conv_conj take_is_prefix)
  ultimately show ?case using Cons by simp
qed

lemma js_rem_nonneg: "0 \<le> a \<Longrightarrow> js_rem a 18 = a mod 18"
  by (simp add: js_rem_def)

lemma floor_div18: "\<lfloor>(of_int c :: rat) / 18\<rfloor> = c div 18"
  by (metis floor_divide_of_int_eq of_int_numeral)

lemma strokes_nonneg:
  "0 \<le> c \<Longrightarrow> strokesReceivedOnHole c r = c div 18 + (if r \<le> c mod 18 then 1 else 0)"
  by (simp add: strokesReceivedOnHole_def js_rem_nonneg floor_div18 Let_def)

lemma tallyHoles_counts:
  "sideAId \<noteq> sideBId \<Longrightarrow>
   tallyHoles sideAId sideBId holes (a, b, n) =
     (a + holesWonBy sideAId holes, b + holesWonBy sideBId holes, n + holesPlayed holes)"
  by (induction holes arbitrary: a b n) (auto simp: holesWonBy_def holesPlayed_def)

lemma holesPlayed_le: "holesPlayed holes \<le> int (length holes)"
  by (simp add: holesPlayed_def)

lemma holesPlayed_all: "\<forall>h \<in> set holes. played h \<Longrightarrow> holesPlayed holes = int (length holes)"
  by (simp add: holesPlayed_def)

lemma showInt_0: "showInt 0 = ''0''"
  by code_simp

lemma closeout_concrete:
  "matchStatusFromHoles (closeoutHoles sideAId) sideAId sideBId =
     \<lparr> aHoles = Some 10, bHoles = Some 0, status_played = 10, isFinal = True,
       status_text = ''Final 10&8'', leaderSideId = Some sideAId,
       isTied = False, aTotalPts = None, bTotalPts = None \<rparr>"
  by code_simp

text \<open>
  With all 18 holes played and unequal tallies the closeout branch comes first: the label is
  \<open>Final n&0\<close>, and the label \<open>Final n Up\<close> of the later branch is never produced. With
  equal tallies the status is the final tie.
\<close>

lemma decided_after_18_label:
  assumes "length holes = 18" and "\<forall>h \<in> set holes. played h" and "sideAId \<noteq> sideBId"
    and "holesWonBy sideAId holes \<noteq> holesWonBy sideBId holes"
  shows "status_text (matchStatusFromHoles holes sideAId sideBId) =
           ''Final '' @ showInt \<bar>holesWonBy sideAId holes - holesWonBy sideBId holes\<bar> @ ''&'' @ showInt 0"
    and "isFinal (matchStatusFromHoles holes sideAId sideBId)"
    and "\<not> isTied (matchStatusFromHoles holes sideAId sideBId)"
    and "leaderSideId (matchStatusFromHoles holes sideAId sideBId) =
           Some (if holesWonBy sideBId holes < holesWonBy sideAId holes then sideAId else sideBId)"
proof -
  have p: "holesPlayed holes = 18" using holesPlayed_all [OF assms(2)] assms(1) by simp
  show "status_text (matchStatusFromHoles holes sideAId sideBId) =
           ''Final '' @ showInt \<bar>holesWonBy sideAId holes - holesWonBy sideBId holes\<bar> @ ''&'' @ showInt 0"
    using p assms(3,4) by (auto simp add: matchStatusFromHoles_def tallyHoles_counts Let_def)
  show "isFinal (matchStatusFromHoles holes sideAId sideBId)"
    using p assms(3,4) by (auto simp add: matchStatusFromHoles_def tallyHoles_counts Let_def)
  show "\<not> isTied (matchStatusFromHoles holes sideAId sideBId)"
    using p assms(3,4) by (auto simp add: matchStatusFromHoles_def tallyHoles_counts Let_def)
  show "leaderSideId (matchStatusFromHoles holes sideAId sideBId) =
           Some (if holesWonBy sideBId holes < holesWonBy sideAId holes then sideAId else sideBId)"
    using p assms(3,4) by (auto simp add: matchStatusFromHoles_def tallyHoles_counts Let_def)
qed

lemma tied_after_18:
  assumes "length holes = 18" and "\<forall>h \<in> set holes. played h" and "sideAId \<noteq> sideBId"
    and "holesWonBy sideAId holes = holesWonBy sideBId holes"
  shows "matchStatusFromHoles holes sideAId sideBId =
           \<lparr> aHoles = Some (holesWonBy sideAId holes), bHoles = Some (holesWonBy sideBId holes),
             status_played = 18, isFinal = True, status_text = ''Final (Tied)'',
             leaderSideId = None, isTied = True, aTotalPts = None, bTotalPts = None \<rparr>"
proof -
  have p: "holesPlayed holes = 18" using holesPlayed_all [OF assms(2)] assms(1) by simp
  show ?thesis using p assms(3,4)
    by (simp add: matchStatusFromHoles_def tallyHoles_counts Let_def)
qed

lemma pointsOf_pointsObject:
  "pointsOf (pointsObject k1 v1 k2 v2) t = (if t = k2 then v2 else if t = k1 then v1 else 0)"
  by (simp add: pointsOf_def pointsObject_def)

lemma dom_pointsObject: "dom (pointsObject k1 v1 k2 v2) = {k1, k2}"
  by (auto simp: pointsObject_def)

text \<open>
  \<^verbatim>\<open>pointsForFinalMatch\<close> of \<^verbatim>\<open>src/TournamentApp.jsx\<close> on sides of distinct teams: nothing
  before the match is final, a half each on a final tie, otherwise the point to the team of
  side A when the leader is side A and to the team of side B in every other case.
\<close>

lemma pointsForFinalMatch_cases:
  assumes "teamId sA \<noteq> teamId sB"
  shows "let pts = pointsForFinalMatch status sA sB;
             pa = pointsOf pts (teamId sA); pb = pointsOf pts (teamId sB)
         in dom pts = {teamId sA, teamId sB} \<and>
            (if \<not> isFinal status then pa = 0 \<and> pb = 0
             else if isTied status then pa = 1/2 \<and> pb = 1/2
             else if leaderSideId status = Some (side_id sA) then pa = 1 \<and> pb = 0
             else pa = 0 \<and> pb = 1)"
  using assms
  by (auto simp: pointsForFinalMatch_def pointsOf_pointsObject Let_def dom_pointsObject)

lemma points_sum_app:
  "teamId sA \<noteq> teamId sB \<Longrightarrow>
   pointsOf (pointsForFinalMatch status sA sB) (teamId sA) +
   pointsOf (pointsForFinalMatch status sA sB) (teamId sB) = (if isFinal status then 1 else 0)"
  by (auto simp: pointsForFinalMatch_def pointsOf_pointsObject Let_def)

lemma points_sum_prototype:
  "teamId sA \<noteq> teamId sB \<Longrightarrow>
   pointsOf (pointsForFinalMatch_prototype status sA sB) (teamId sA) +
   pointsOf (pointsForFinalMatch_prototype status sA sB) (teamId sB) = (if isFinal status then 1 else 0)"
  by (auto simp: pointsForFinalMatch_prototype_def pointsOf_pointsObject Let_def)

lemma bestStep_Some:
  "bestStep (Some b) x = Some (if toNumber (net x) < toNumber (net b) then x else b)"
  by (simp add: bestStep_def)

lemma bestStep_None: "bestStep None x = Some x"
  by (simp add: bestStep_def)

lemma foldl_bestStep_Some:
  "\<exists>b. foldl bestStep (Some b0) xs = Some b \<and> b \<in> insert b0 (set xs) \<and>
       toNumber (net b) \<le> toNumber (net b0) \<and>
       (\<forall>y \<in> set xs. toNumber (net b) \<le> toNumber (net y))"
proof (induction xs arbitrary: b0)
  case Nil
  then show ?case by simp
next
  case (Cons x xs)
  let ?c = "if toNumber (net x) < toNumber (net b0) then x else b0"
  from Cons [of ?c] obtain b where b: "foldl bestStep (Some ?c) xs = Some b"
      "b \<in> insert ?c (set xs)" "toNumber (net b) \<le> toNumber (net ?c)"
      "\<forall>y \<in> set xs. toNumber (net b) \<le> toNumber (net y)"
    by blast
  have "foldl bestStep (Some b0) (x # xs) = Some b"
    using b(1) by (simp add: bestStep_Some)
  moreover have "b \<in> insert b0 (set (x # xs))"
    using b(2) by (auto split: if_splits)
  moreover have "toNumber (net b) \<le> toNumber (net b0)" "toNumber (net b) \<le> toNumber (net x)"
    using b(3) by (auto split: if_splits)
  ultimately show ?case using b(4) by auto
qed

lemma bestOf_Min:
  assumes "xs \<noteq> []"
  shows "\<exists>b. bestOf xs = Some b \<and> b \<in> set xs \<and>
             toNumber (net b) = Min (set (map (\<lambda>x. toNumber (net x)) xs))"
proof -
  obtain x ys where xs: "xs = x # ys" using assms by (cases xs) auto
  from foldl_bestStep_Some [of x ys] obtain b where b: "foldl bestStep (Some x) ys = Some b"
    "b \<in> insert x (set ys)" "toNumber (net b) \<le> toNumber (net x)"
    "\<forall>y \<in> set ys. toNumber (net b) \<le> toNumber (net y)" by blast
  have "bestOf xs = Some b" using b(1) by (simp add: xs bestOf_def bestStep_None)
  moreover have "b \<in> set xs" using b(2) by (simp add: xs)
  moreover have "Min (set (map (\<lambda>x. toNumber (net x)) xs)) = toNumber (net b)"
  proof (rule Min_eqI)
    show "finite (set (map (\<lambda>x. toNumber (net x)) xs))" by simp
    show "toNumber (net b) \<in> set (map (\<lambda>x. toNumber (net x)) xs)"
      using b(2) by (auto simp: xs)
    fix y assume "y \<in> set (map (\<lambda>x. toNumber (net x)) xs)"
    then show "toNumber (net b) \<le> y" using b(3,4) by (auto simp: xs)
  qed
  ultimately show ?thesis by auto
qed

lemma sideNets_counted:
  "sideNets m playersById h pids =
     map (\<lambda>p. \<lparr> pid = p, gross = grossAt (fourballGrossByPlayer m) p (hole h),
                 net = Some (netOf m playersById h p) \<rparr>)
         (countedPlayers m playersById h pids)"
proof (induction pids)
  case Nil
  then show ?case by (simp add: sideNets_def countedPlayers_def)
next
  case (Cons p ps)
  then have ih: "sideNets m playersById h ps =
           map (\<lambda>p. \<lparr> pid = p, gross = grossAt (fourballGrossByPlayer m) p (hole h),
                       net = Some (netOf m playersById h p) \<rparr>)
               (countedPlayers m playersById h ps)" .
  show ?case
  proof (cases "grossAt (fourballGrossByPlayer m) p (hole h)")
    case None
    then show ?thesis using ih
      by (simp add: sideNets_def countedPlayers_def entered_def Let_def)
  next
    case (Some g)
    show ?thesis
    proof (cases "playersById p")
      case None
      then show ?thesis using ih Some
        by (simp add: sideNets_def countedPlayers_def entered_def Let_def)
    next
      case (Some pl)
      then show ?thesis using ih \<open>grossAt (fourballGrossByPlayer m) p (hole h) = Some g\<close>
        by (simp add: sideNets_def countedPlayers_def entered_def netScore_def netOf_def Let_def)
    qed
  qed
qed

lemma countedPlayers_known:
  "set pids \<subseteq> dom playersById \<Longrightarrow> countedPlayers m playersById h pids = enteredPlayers m h pids"
  by (auto simp: countedPlayers_def enteredPlayers_def intro!: filter_cong)

lemma mapE_Inr:
  "\<forall>x \<in> set xs. f x = Inr (g x) \<Longrightarrow> mapE f xs = Inr (map g xs)"
  by (induction xs) auto

lemma computeHole_scramble:
  assumes "format m = SCRAMBLE_STABLEFORD"
  shows "computeHole m playersById h =
     Inr (if scrambleEntered m h then
            \<lparr> res_hole = hole h, res_played = True,
              res_winnerSideId =
                (if scramblePoints m (sideA m) h > scramblePoints m (sideB m) h
                 then Some (side_id (sideA m))
                 else if scramblePoints m (sideB m) h > scramblePoints m (sideA m) h
                 then Some (side_id (sideB m))
                 else None),
              res_details = Scramble (grossAt (scrambleGrossBySide m) (side_id (sideA m)) (hole h))
                                     (grossAt (scrambleGrossBySide m) (side_id (sideB m)) (hole h))
                                     (Some (scramblePoints m (sideA m) h))
                                     (Some (scramblePoints m (sideB m) h)) \<rparr>
          else
            \<lparr> res_hole = hole h, res_played = False, res_winnerSideId = None,
              res_details = Scramble None None None None \<rparr>)"
  using assms
  by (auto simp: computeHole_def scrambleEntered_def scramblePoints_def Let_def split: option.splits)

text \<open>No hole raises: the best entry of a non-empty list is never \<^verbatim>\<open>null\<close>.\<close>

lemma computeHole_total: "\<exists>r. computeHole m playersById h = Inr r \<and> res_hole r = hole h"
proof (cases "format m")
  case FOURBALL_NET
  let ?a = "sideNets m playersById h (playerIds (sideA m))"
  let ?b = "sideNets m playersById h (playerIds (sideB m))"
  show ?thesis
  proof (cases "?a = [] \<or> ?b = []")
    case True
    then show ?thesis using FOURBALL_NET by (auto simp: computeHole_def Let_def)
  next
    case False
    then obtain x y where "bestOf ?a = Some x" "bestOf ?b = Some y"
      using bestOf_Min [of ?a] bestOf_Min [of ?b] by blast
    then show ?thesis using False FOURBALL_NET by (simp add: computeHole_def Let_def)
  qed
next
  case SCRAMBLE_STABLEFORD
  then show ?thesis by (simp add: computeHole_scramble)
next
  case SINGLES_NET
  then show ?thesis by (simp add: computeHole_def Let_def)
qed

lemma computeHole_projr: "computeHole m playersById h = Inr (projr (computeHole m playersById h))"
  using computeHole_total [of m playersById h] by auto

lemma computeMatchHoles_total:
  "computeMatchHoles m holes playersById = Inr (map (\<lambda>h. projr (computeHole m playersById h)) holes)"
  unfolding computeMatchHoles_def
  by (rule mapE_Inr) (simp add: computeHole_projr [symmetric])

lemma res_hole_projr: "res_hole (projr (computeHole m playersById h)) = hole h"
  using computeHole_total [of m playersById h] by auto

lemma matchCardStatus_total: "\<exists>st. matchCardStatus m holes playersById = Inr st"
  by (simp add: matchCardStatus_def computeMatchHoles_total)

lemma tallyPoints_scramble:
  assumes "format m = SCRAMBLE_STABLEFORD"
  shows "tallyPoints (map (\<lambda>h. projr (computeHole m playersById h)) holes) (a, b, n) =
           (a + scrambleTotal m (sideA m) holes, b + scrambleTotal m (sideB m) holes,
            n + int (length (scramblePlayedHoles m holes)))"
  by (induction holes arbitrary: a b n)
     (simp_all add: computeHole_scramble [OF assms] scrambleTotal_def scramblePlayedHoles_def)

lemma grossAt_restrict:
  "grossAt (withoutUnknownPlayers playersById store) p h =
     (if p \<in> dom playersById then grossAt store p h else None)"
  by (cases store) (auto simp: grossAt_def withoutUnknownPlayers_def restrict_map_def)

lemma sideNets_unknown_discarded:
  "sideNets (m\<lparr>fourballGrossByPlayer := withoutUnknownPlayers playersById (fourballGrossByPlayer m)\<rparr>)
      playersById h pids = sideNets m playersById h pids"
proof (induction pids)
  case Nil
  then show ?case by (simp add: sideNets_def)
next
  case (Cons p ps)
  then have ih: "sideNets (m\<lparr>fourballGrossByPlayer := withoutUnknownPlayers playersById (fourballGrossByPlayer m)\<rparr>)
      playersById h ps = sideNets m playersById h ps" .
  show ?case
  proof (cases "playersById p")
    case None
    then show ?thesis using ih by (simp add: sideNets_def Let_def)
  next
    case (Some pl)
    then have "p \<in> dom playersById" by auto
    then show ?thesis using ih Some by (simp add: sideNets_def Let_def grossAt_restrict)
  qed
qed

lemma fourball_unknown_discarded:
  assumes "format m = FOURBALL_NET"
  shows "computeHole (m\<lparr>fourballGrossByPlayer := withoutUnknownPlayers playersById (fourballGrossByPlayer m)\<rparr>)
           playersById h = computeHole m playersById h"
  using assms
  by (simp add: computeHole_def sideNets_unknown_discarded Let_def split: option.splits)

lemma keyAbsent_grossAt: "keyAbsent store key \<Longrightarrow> grossAt store key h = None"
  by (auto simp: keyAbsent_def grossAt_def split: option.splits)

lemma scramble_missing:
  assumes "format m = SCRAMBLE_STABLEFORD"
    and "keyAbsent (scrambleGrossBySide m) (side_id (sideA m)) \<or>
         keyAbsent (scrambleGrossBySide m) (side_id (sideB m))"
  shows "computeHole m playersById h =
           Inr \<lparr> res_hole = hole h, res_played = False, res_winnerSideId = None,
                 res_details = Scramble None None None None \<rparr>"
  using assms keyAbsent_grossAt by (auto simp: computeHole_scramble scrambleEntered_def)

lemma singles_missing:
  assumes "format m = SINGLES_NET"
    and "keyAbsent (singlesGrossByPlayer m) (firstKey (playerIds (sideA m))) \<or>
         keyAbsent (singlesGrossByPlayer m) (firstKey (playerIds (sideB m)))"
  shows "computeHole m playersById h =
           Inr \<lparr> res_hole = hole h, res_played = False, res_winnerSideId = None,
                 res_details = Singles None None None None \<rparr>"
  using assms keyAbsent_grossAt by (auto simp: computeHole_def Let_def)

text \<open>
  In the singles branch a hole counts as played as soon as both gross entries exist; a player
  missing from the roster only leaves the net \<^verbatim>\<open>null\<close> and the hole without winner.
\<close>

lemma singles_unknown_player:
  assumes "format m = SINGLES_NET"
    and "grossAt (singlesGrossByPlayer m) (firstKey (playerIds (sideA m))) (hole h) \<noteq> None"
    and "grossAt (singlesGrossByPlayer m) (firstKey (playerIds (sideB m))) (hole h) \<noteq> None"
    and "playersById (firstKey (playerIds (sideA m))) = None \<or>
         playersById (firstKey (playerIds (sideB m))) = None"
  shows "\<exists>r. computeHole m playersById h = Inr r \<and> res_hole r = hole h \<and> res_played r \<and>
             res_winnerSideId r = None"
  using assms by (auto simp: computeHole_def Let_def split: option.splits)

lemma cleared_fourball:
  assumes "format m = FOURBALL_NET" "noEntries (fourballGrossByPlayer m)"
  shows "computeHole m playersById h =
           Inr \<lparr> res_hole = hole h, res_played = False, res_winnerSideId = None,
                 res_details = Fourball None None \<rparr>"
proof -
  have "sideNets m playersById h pids = []" for pids
    using assms(2) by (induction pids) (auto simp: sideNets_def noEntries_def Let_def)
  then show ?thesis using assms(1) by (simp add: computeHole_def)
qed

lemma cleared_scramble:
  assumes "format m = SCRAMBLE_STABLEFORD" "noEntries (scrambleGrossBySide m)"
  shows "computeHole m playersById h =
           Inr \<lparr> res_hole = hole h, res_played = False, res_winnerSideId = None,
                 res_details = Scramble None None None None \<rparr>"
  using assms by (simp add: computeHole_scramble scrambleEntered_def noEntries_def)

lemma cleared_singles:
  assumes "format m = SINGLES_NET" "noEntries (singlesGrossByPlayer m)"
  shows "computeHole m playersById h =
           Inr \<lparr> res_hole = hole h, res_played = False, res_winnerSideId = None,
                 res_details = Singles None None None None \<rparr>"
  using assms by (simp add: computeHole_def noEntries_def)

lemma tallyHoles_none_played:
  "\<forall>h \<in> set hs. \<not> played h \<Longrightarrow> tallyHoles a b hs acc = acc"
  by (induction hs arbitrary: acc) (auto simp: prod_cases3)

lemma tallyPoints_none_played:
  "\<forall>h \<in> set hs. \<not> res_played h \<Longrightarrow> tallyPoints hs acc = acc"
  by (induction hs arbitrary: acc) (auto simp: prod_cases3)

lemma cleared_not_played:
  assumes "noEntries (fourballGrossByPlayer m)" "noEntries (scrambleGrossBySide m)"
    "noEntries (singlesGrossByPlayer m)"
  shows "\<not> res_played (projr (computeHole m playersById h))"
  using assms
  by (cases "format m") (simp_all add: cleared_fourball cleared_scramble cleared_singles)

lemma cleared_status:
  assumes "noEntries (fourballGrossByPlayer m)" "noEntries (scrambleGrossBySide m)"
    "noEntries (singlesGrossByPlayer m)"
  shows "matchCardStatus m holes playersById =
           Inr (if format m = SCRAMBLE_STABLEFORD
                then \<lparr> aHoles = None, bHoles = None, status_played = 0, isFinal = False,
                       status_text = em_dash, leaderSideId = None, isTied = True,
                       aTotalPts = Some 0, bTotalPts = Some 0 \<rparr>
                else \<lparr> aHoles = Some 0, bHoles = Some 0, status_played = 0, isFinal = False,
                       status_text = ''Not Started'', leaderSideId = None, isTied = True,
                       aTotalPts = None, bTotalPts = None \<rparr>)"
proof -
  let ?mh = "map (\<lambda>h. projr (computeHole m playersById h)) holes"
  have np: "\<forall>r \<in> set ?mh. \<not> res_played r"
    using cleared_not_played [OF assms] by auto
  then have "\<forall>x \<in> set (map toOutcome ?mh). \<not> played x"
    by (auto simp: toOutcome_def)
  then have t1: "tallyHoles a b (map toOutcome ?mh) acc = acc" for a b acc
    by (rule tallyHoles_none_played)
  have t2: "tallyPoints ?mh acc = acc" for acc
    using np by (rule tallyPoints_none_played)
  have s1: "matchStatusFromHoles (map toOutcome ?mh) a b =
      \<lparr> aHoles = Some 0, bHoles = Some 0, status_played = 0, isFinal = False,
        status_text = ''Not Started'', leaderSideId = None, isTied = True,
        aTotalPts = None, bTotalPts = None \<rparr>" for a b
    unfolding matchStatusFromHoles_def t1 by simp
  have s2: "stablefordTotalsStatusFromHoles ?mh a b =
      \<lparr> aHoles = None, bHoles = None, status_played = 0, isFinal = False,
        status_text = em_dash, leaderSideId = None, isTied = True,
        aTotalPts = Some 0, bTotalPts = Some 0 \<rparr>" for a b
    unfolding stablefordTotalsStatusFromHoles_def t2 by simp
  show ?thesis
    unfolding matchCardStatus_def computeMatchHoles_total by (simp only: sum.case s1 s2)
qed

lemma noEntries_empty: "noEntries (Some Map.empty)"
  by (simp add: noEntries_def grossAt_def)

lemma noEntries_neverScored:
  "noEntries (fourballGrossByPlayer (neverScored m)) \<and>
   noEntries (scrambleGrossBySide (neverScored m)) \<and>
   noEntries (singlesGrossByPlayer (neverScored m))"
  by (simp add: neverScored_def noEntries_empty)

text \<open>Reading back after a write, and deleting what was written into a store without entries.\<close>

lemma grossAt_setGross:
  "grossAt (setGross store key holeNum g) key' h =
     (if key' = key \<and> h = holeNum then g else grossAt store key' h)"
  by (auto simp: grossAt_def setGross_def Let_def split: option.splits)

lemma noEntries_write_delete:
  "noEntries store \<Longrightarrow> noEntries (setGross (setGross store key holeNum (Some g)) key holeNum None)"
  by (simp add: noEntries_def grossAt_setGross)

text \<open>A day's two accumulators together grow by one for each final match.\<close>

lemma dayPoints_conserved:
  assumes "\<forall>m \<in> set ms. teamId (sideA m) = ''JC'' \<and> teamId (sideB m) = ''SG'' \<or>
                          teamId (sideA m) = ''SG'' \<and> teamId (sideB m) = ''JC''"
  shows "\<exists>jc sg. dayPoints ms holes playersById (jc0, sg0) = Inr (jc, sg) \<and>
                 jc + sg = jc0 + sg0 + of_nat (finalMatches ms holes playersById)"
  using assms
proof (induction ms arbitrary: jc0 sg0)
  case Nil
  then show ?case by (simp add: finalMatches_def)
next
  case (Cons m ms)
  obtain st where st: "matchCardStatus m holes playersById = Inr st"
    using matchCardStatus_total by blast
  let ?pts = "pointsForFinalMatch st (sideA m) (sideB m)"
  have sum: "pointsOf ?pts ''JC'' + pointsOf ?pts ''SG'' = (if isFinal st then 1 else 0)"
  proof -
    from Cons.prems have "teamId (sideA m) = ''JC'' \<and> teamId (sideB m) = ''SG'' \<or>
                          teamId (sideA m) = ''SG'' \<and> teamId (sideB m) = ''JC''" by simp
    then show ?thesis
    proof
      assume t: "teamId (sideA m) = ''JC'' \<and> teamId (sideB m) = ''SG''"
      then have "teamId (sideA m) \<noteq> teamId (sideB m)" by simp
      from points_sum_app [OF this, of st] show ?thesis using t by simp
    next
      assume t: "teamId (sideA m) = ''SG'' \<and> teamId (sideB m) = ''JC''"
      then have "teamId (sideA m) \<noteq> teamId (sideB m)" by simp
      from points_sum_app [OF this, of st] show ?thesis using t by (simp add: add.commute)
    qed
  qed
  from Cons.prems have "\<forall>m \<in> set ms. teamId (sideA m) = ''JC'' \<and> teamId (sideB m) = ''SG'' \<or>
                          teamId (sideA m) = ''SG'' \<and> teamId (sideB m) = ''JC''" by simp
  from Cons.IH [OF this, of "jc0 + pointsOf ?pts ''JC''" "sg0 + pointsOf ?pts ''SG''"]
  obtain jc sg where r: "dayPoints ms holes playersById
        (jc0 + pointsOf ?pts ''JC'', sg0 + pointsOf ?pts ''SG'') = Inr (jc, sg)"
      "jc + sg = jc0 + pointsOf ?pts ''JC'' + (sg0 + pointsOf ?pts ''SG'') +
                 of_nat (finalMatches ms holes playersById)"
    by blast
  have "dayPoints (m # ms) holes playersById (jc0, sg0) = Inr (jc, sg)"
    using r(1) st by (simp add: matchCardPoints_def)
  moreover have "jc + sg = jc0 + sg0 + of_nat (finalMatches (m # ms) holes playersById)"
    using r(2) sum st by (simp add: finalMatches_def matchIsFinal_def)
  ultimately show ?case by blast
qed

subsection \<open>Points of a final match\<close>

text \<open>
  C1. The claim: before the match is final both teams get 0, on a final tie (\<open>isTied\<close>) both
  get 0.5, otherwise the team of the leader side gets 1; in particular the final tied scramble
  status labelled with the two totals splits the point. \<^verbatim>\<open>pointsForFinalMatch\<close> of
  \<^verbatim>\<open>src/TournamentApp.jsx\<close> does so (\<open>pointsForFinalMatch_cases\<close>).
  \<^verbatim>\<open>pointsForFinalMatch\<close> of \<^verbatim>\<open>src/tournamentPrototype.js\<close> does not: the sample scramble
  match ends 14 to 14, its status is final and tied with a label that does not contain
  \<open>Tied\<close>, and the prototype gives the whole point to the team of side B.
\<close>

theorem prototype_points_tied_scramble:
  "matchCardStatus sampleScramble course2 samplePlayers = Inr tiedTotalsStatus \<and>
   isFinal tiedTotalsStatus \<and> isTied tiedTotalsStatus \<and>
   teamId (sideA sampleScramble) = ''JC'' \<and> teamId (sideB sampleScramble) = ''SG'' \<and>
   pointsOf (pointsForFinalMatch_prototype tiedTotalsStatus (sideA sampleScramble) (sideB sampleScramble)) ''JC'' = 0 \<and>
   pointsOf (pointsForFinalMatch_prototype tiedTotalsStatus (sideA sampleScramble) (sideB sampleScramble)) ''SG'' = 1 \<and>
   pointsOf (pointsForFinalMatch tiedTotalsStatus (sideA sampleScramble) (sideB sampleScramble)) ''JC'' = 1/2 \<and>
   pointsOf (pointsForFinalMatch tiedTotalsStatus (sideA sampleScramble) (sideB sampleScramble)) ''SG'' = 1/2"
  by code_simp

subsection \<open>Holes-based status\<close>

text \<open>
  C2. For 18 hole outcomes of which at least one is played, with \<open>a\<close> and \<open>b\<close> the holes won
  by the two sides, \<open>diff = a - b\<close> and \<open>remaining = 18 - played\<close>: the status is final with
  label \<open>Final |diff|&remaining\<close> and the side with more holes as leader exactly when
  \<open>|diff| > remaining\<close>; when \<open>|diff| = remaining\<close> and fewer than 18 holes are played the
  status is not final; side A winning holes 1 to 10 with nothing else played gives the final
  status \<open>Final 10&8\<close> with leader A.
\<close>

theorem closeout_status:
  assumes "length holes = 18" and "sideAId \<noteq> sideBId" and "0 < holesPlayed holes"
  shows "let st = matchStatusFromHoles holes sideAId sideBId;
             a = holesWonBy sideAId holes; b = holesWonBy sideBId holes;
             diff = a - b; remaining = 18 - holesPlayed holes
         in ((isFinal st \<and>
              status_text st = ''Final '' @ showInt \<bar>diff\<bar> @ ''&'' @ showInt remaining)
               \<longleftrightarrow> remaining < \<bar>diff\<bar>) \<and>
            (remaining < \<bar>diff\<bar> \<longrightarrow> leaderSideId st = Some (if b < a then sideAId else sideBId)) \<and>
            (\<bar>diff\<bar> = remaining \<and> holesPlayed holes < 18 \<longrightarrow> \<not> isFinal st) \<and>
            matchStatusFromHoles (closeoutHoles sideAId) sideAId sideBId =
              \<lparr> aHoles = Some 10, bHoles = Some 0, status_played = 10, isFinal = True,
                status_text = ''Final 10&8'', leaderSideId = Some sideAId,
                isTied = False, aTotalPts = None, bTotalPts = None \<rparr>"
proof -
  have le: "holesPlayed holes \<le> 18" using holesPlayed_le [of holes] assms(1) by simp
  let ?st = "matchStatusFromHoles holes sideAId sideBId"
  let ?a = "holesWonBy sideAId holes" and ?b = "holesWonBy sideBId holes"
  let ?remaining = "18 - holesPlayed holes"
  have closeout: "(isFinal ?st \<and>
      status_text ?st = ''Final '' @ showInt \<bar>?a - ?b\<bar> @ ''&'' @ showInt ?remaining)
        \<longleftrightarrow> ?remaining < \<bar>?a - ?b\<bar>"
    using le assms(2,3)
    by (auto simp: matchStatusFromHoles_def tallyHoles_counts Let_def showInt_0)
  have leader: "?remaining < \<bar>?a - ?b\<bar> \<longrightarrow>
      leaderSideId ?st = Some (if ?b < ?a then sideAId else sideBId)"
    using le assms(2,3) by (auto simp: matchStatusFromHoles_def tallyHoles_counts Let_def)
  have dormie: "\<bar>?a - ?b\<bar> = ?remaining \<and> holesPlayed holes < 18 \<longrightarrow> \<not> isFinal ?st"
    using le assms(2,3) by (auto simp: matchStatusFromHoles_def tallyHoles_counts Let_def)
  show ?thesis
    unfolding Let_def using closeout leader dormie closeout_concrete [of sideAId sideBId] by blast
qed

theorem closeout_status_witness:
  "length (closeoutHoles ''A'') = 18 \<and> ''A'' \<noteq> ''B'' \<and> 0 < holesPlayed (closeoutHoles ''A'') \<and>
   holesWonBy ''A'' (closeoutHoles ''A'') = 10 \<and> holesWonBy ''B'' (closeoutHoles ''A'') = 0 \<and>
   holesPlayed (closeoutHoles ''A'') = 10 \<and>
   isFinal (matchStatusFromHoles (closeoutHoles ''A'') ''A'' ''B'') \<and>
   status_text (matchStatusFromHoles (closeoutHoles ''A'') ''A'' ''B'') = ''Final 10&8'' \<and>
   leaderSideId (matchStatusFromHoles (closeoutHoles ''A'') ''A'' ''B'') = Some ''A''"
proof -
  have h: "length (closeoutHoles ''A'') = 18" "''A'' \<noteq> ''B''" "0 < holesPlayed (closeoutHoles ''A'')"
    by (simp_all add: closeoutHoles_def holesPlayed_def)
  have v: "holesWonBy ''A'' (closeoutHoles ''A'') = 10" "holesWonBy ''B'' (closeoutHoles ''A'') = 0"
    "holesPlayed (closeoutHoles ''A'') = 10"
    by (simp_all add: closeoutHoles_def holesPlayed_def holesWonBy_def)
  from closeout_status [OF h] show ?thesis using h v by (simp add: Let_def)
qed


subsection \<open>Stableford points and handicap strokes\<close>

text \<open>
  C4. \<^verbatim>\<open>stablefordFromDiff\<close> is the step function with values 10, 6, 3, 1, -1, -2 at
  -3, -2, -1, 0, 1, 2, constant -2 above 2 and constant 10 below -3.
\<close>

theorem stablefordFromDiff_steps:
  "stablefordFromDiff (-3) = 10 \<and> stablefordFromDiff (-2) = 6 \<and> stablefordFromDiff (-1) = 3 \<and>
   stablefordFromDiff 0 = 1 \<and> stablefordFromDiff 1 = -1 \<and> stablefordFromDiff 2 = -2 \<and>
   (\<forall>x. 2 < x \<longrightarrow> stablefordFromDiff x = stablefordFromDiff 2 \<and> stablefordFromDiff x = -2) \<and>
   (\<forall>x. x < -3 \<longrightarrow> stablefordFromDiff x = stablefordFromDiff (-3) \<and> stablefordFromDiff x = 10)"
  by simp

theorem stablefordFromDiff_steps_witness:
  "(2::int) < 7 \<and> stablefordFromDiff 7 = stablefordFromDiff 2 \<and> stablefordFromDiff 7 = -2 \<and>
   (-5::int) < -3 \<and> stablefordFromDiff (-5) = stablefordFromDiff (-3) \<and> stablefordFromDiff (-5) = 10"
proof -
  have a: "(2::int) < 7" and b: "(-5::int) < -3" by simp_all
  from stablefordFromDiff_steps a b show ?thesis by simp
qed

text \<open>
  C5. For a non-negative course handicap the strokes received on a hole are
  \<open>floor(courseHcp / 18)\<close> plus one when the hole's rank is at most \<open>courseHcp mod 18\<close>; with
  handicap 20 the holes ranked 1 and 2 receive 2 strokes and the ranks 3 to 18 receive 1;
  \<^verbatim>\<open>netScore\<close> is \<^verbatim>\<open>null\<close> for an unset gross and the gross minus the strokes otherwise.
\<close>

theorem strokes_and_net:
  assumes "0 \<le> hcp"
  shows "strokesReceivedOnHole hcp rank =
           hcp div 18 + (if rank \<le> hcp mod 18 then 1 else 0) \<and>
         strokesReceivedOnHole 20 1 = 2 \<and> strokesReceivedOnHole 20 2 = 2 \<and>
         (\<forall>r. 3 \<le> r \<and> r \<le> 18 \<longrightarrow> strokesReceivedOnHole 20 r = 1) \<and>
         netScore None hcp rank = None \<and>
         netScore (Some g) hcp rank = Some (g - strokesReceivedOnHole hcp rank)"
  using assms by (simp add: strokes_nonneg netScore_def)

theorem strokes_and_net_witness:
  "(0::int) \<le> 20 \<and> strokesReceivedOnHole 20 1 = 20 div 18 + 1 \<and> strokesReceivedOnHole 20 1 = 2 \<and>
   strokesReceivedOnHole 20 2 = 2 \<and> (3::int) \<le> 10 \<and> (10::int) \<le> 18 \<and>
   strokesReceivedOnHole 20 10 = 1 \<and> netScore (Some 5) 20 1 = Some 3 \<and> netScore None 20 1 = None"
proof -
  have h: "(0::int) \<le> 20" by simp
  from strokes_and_net [OF h, of 1 5] show ?thesis by simp
qed

subsection \<open>Fourball holes\<close>

text \<open>
  C3. The claim: on every hole of every Fourball-Net match the entries of a side are the net
  scores of exactly its players whose gross is entered, and the hole is played if and only if
  both sides have an entered player. In the match below the only entered player of side A is
  not in the roster: both sides have an entered player, and the hole is not played.
\<close>

theorem fourball_unknown_player_not_played:
  "format ghostFourball = FOURBALL_NET \<and>
   enteredPlayers ghostFourball (hd course1) (playerIds (sideA ghostFourball)) = [''p99''] \<and>
   enteredPlayers ghostFourball (hd course1) (playerIds (sideB ghostFourball)) = [''p11'', ''p12''] \<and>
   samplePlayers ''p99'' = None \<and>
   sideNets ghostFourball samplePlayers (hd course1) (playerIds (sideA ghostFourball)) = [] \<and>
   computeHole ghostFourball samplePlayers (hd course1) =
     Inr \<lparr> res_hole = 1, res_played = False, res_winnerSideId = None,
           res_details = Fourball None None \<rparr>"
  by code_simp

text \<open>
  C3 as amended. In every Fourball-Net match, on every hole, for every store of gross
  entries and every roster: the entries considered for a side are the net scores of exactly
  those of its players whose gross is entered and who are in the roster (all entered players
  when the roster has every player of the side); the hole is played if and only if both sides
  have such a player; when played, each side's value is the least net among them, the side
  with the strictly lower value wins and equal values halve the hole.
\<close>

theorem fourball_hole_counted:
  assumes "format m = FOURBALL_NET"
  shows "let ca = countedPlayers m playersById h (playerIds (sideA m));
             cb = countedPlayers m playersById h (playerIds (sideB m));
             entry = (\<lambda>p. \<lparr> pid = p, gross = grossAt (fourballGrossByPlayer m) p (hole h),
                              net = Some (netOf m playersById h p) \<rparr>);
             bestA = bestBall m playersById h (playerIds (sideA m));
             bestB = bestBall m playersById h (playerIds (sideB m))
         in sideNets m playersById h (playerIds (sideA m)) = map entry ca \<and>
            sideNets m playersById h (playerIds (sideB m)) = map entry cb \<and>
            (set (playerIds (sideA m)) \<subseteq> dom playersById \<longrightarrow>
               ca = enteredPlayers m h (playerIds (sideA m))) \<and>
            (set (playerIds (sideB m)) \<subseteq> dom playersById \<longrightarrow>
               cb = enteredPlayers m h (playerIds (sideB m))) \<and>
            (\<exists>r. computeHole m playersById h = Inr r \<and> res_hole r = hole h \<and>
                 (res_played r \<longleftrightarrow> ca \<noteq> [] \<and> cb \<noteq> []) \<and>
                 (if res_played r then
                    (\<exists>x y. res_details r = Fourball (Some x) (Some y) \<and>
                            x \<in> set (map entry ca) \<and> net x = Some bestA \<and>
                            y \<in> set (map entry cb) \<and> net y = Some bestB) \<and>
                    res_winnerSideId r =
                      (if bestA < bestB then Some (side_id (sideA m))
                       else if bestB < bestA then Some (side_id (sideB m))
                       else None)
                  else res_winnerSideId r = None \<and> res_details r = Fourball None None))"
proof -
  let ?entry = "\<lambda>p. \<lparr> pid = p, gross = grossAt (fourballGrossByPlayer m) p (hole h),
                              net = Some (netOf m playersById h p) \<rparr>"
  let ?ca = "countedPlayers m playersById h (playerIds (sideA m))"
  let ?cb = "countedPlayers m playersById h (playerIds (sideB m))"
  have A: "sideNets m playersById h (playerIds (sideA m)) = map ?entry ?ca"
    by (rule sideNets_counted)
  have B: "sideNets m playersById h (playerIds (sideB m)) = map ?entry ?cb"
    by (rule sideNets_counted)
  have KA: "set (playerIds (sideA m)) \<subseteq> dom playersById \<longrightarrow>
              ?ca = enteredPlayers m h (playerIds (sideA m))"
    by (simp add: countedPlayers_known)
  have KB: "set (playerIds (sideB m)) \<subseteq> dom playersById \<longrightarrow>
              ?cb = enteredPlayers m h (playerIds (sideB m))"
    by (simp add: countedPlayers_known)
  have tn: "map (\<lambda>x. toNumber (net x)) (map ?entry ps) = map (netOf m playersById h) ps" for ps
    by (simp add: toNumber_def)
  show ?thesis
  proof (cases "?ca = [] \<or> ?cb = []")
    case True
    then show ?thesis using A B KA KB assms by (auto simp: computeHole_def Let_def)
  next
    case False
    then have ne: "map ?entry ?ca \<noteq> []" "map ?entry ?cb \<noteq> []" by auto
    from bestOf_Min [OF ne(1)] obtain x where x: "bestOf (map ?entry ?ca) = Some x"
      "x \<in> set (map ?entry ?ca)"
      "toNumber (net x) = bestBall m playersById h (playerIds (sideA m))"
      unfolding tn bestBall_def by blast
    from bestOf_Min [OF ne(2)] obtain y where y: "bestOf (map ?entry ?cb) = Some y"
      "y \<in> set (map ?entry ?cb)"
      "toNumber (net y) = bestBall m playersById h (playerIds (sideB m))"
      unfolding tn bestBall_def by blast
    have nx: "net x = Some (toNumber (net x))" using x(2) by (auto simp: toNumber_def)
    have ny: "net y = Some (toNumber (net y))" using y(2) by (auto simp: toNumber_def)
    have r: "computeHole m playersById h =
        Inr \<lparr> res_hole = hole h, res_played = True,
              res_winnerSideId =
                (if toNumber (net x) < toNumber (net y) then Some (side_id (sideA m))
                 else if toNumber (net y) < toNumber (net x) then Some (side_id (sideB m))
                 else None),
              res_details = Fourball (Some x) (Some y) \<rparr>"
      using False assms x(1) y(1) by (simp add: computeHole_def A B Let_def)
    show ?thesis
      unfolding Let_def
      apply (intro conjI A B KA KB)
      apply (rule exI, rule conjI, rule r)
      using False x(2,3) y(2,3) nx ny
      apply simp
      done
  qed
qed

lemma sampleFourball_values:
  "countedPlayers sampleFourball samplePlayers (hd course1) (playerIds (sideA sampleFourball)) = [''p1'']"
  "countedPlayers sampleFourball samplePlayers (hd course1) (playerIds (sideB sampleFourball)) = [''p11'', ''p12'']"
  "bestBall sampleFourball samplePlayers (hd course1) (playerIds (sideA sampleFourball)) = 4"
  "bestBall sampleFourball samplePlayers (hd course1) (playerIds (sideB sampleFourball)) = 5"
  "side_id (sideA sampleFourball) = ''d1m1-A''"
  "hole (hd course1) = 1"
  by code_simp+

theorem fourball_hole_counted_witness:
  "format sampleFourball = FOURBALL_NET \<and>
   set (playerIds (sideA sampleFourball)) \<subseteq> dom samplePlayers \<and>
   set (playerIds (sideB sampleFourball)) \<subseteq> dom samplePlayers \<and>
   enteredPlayers sampleFourball (hd course1) (playerIds (sideA sampleFourball)) = [''p1''] \<and>
   enteredPlayers sampleFourball (hd course1) (playerIds (sideB sampleFourball)) = [''p11'', ''p12''] \<and>
   (\<exists>r. computeHole sampleFourball samplePlayers (hd course1) = Inr r \<and> res_hole r = 1 \<and>
        res_played r \<and> res_winnerSideId r = Some ''d1m1-A'')"
proof -
  have h1: "format sampleFourball = FOURBALL_NET" by (simp add: sampleFourball_def)
  have h2: "set (playerIds (sideA sampleFourball)) \<subseteq> dom samplePlayers"
    "set (playerIds (sideB sampleFourball)) \<subseteq> dom samplePlayers"
    by (simp_all add: sampleFourball_def samplePlayers_def)
  note c = fourball_hole_counted [OF h1, of samplePlayers "hd course1", unfolded Let_def sampleFourball_values]
  from c h2 have e: "[''p1''] = enteredPlayers sampleFourball (hd course1) (playerIds (sideA sampleFourball))"
    "[''p11'', ''p12''] = enteredPlayers sampleFourball (hd course1) (playerIds (sideB sampleFourball))"
    by blast+
  from c obtain r where "computeHole sampleFourball samplePlayers (hd course1) = Inr r" "res_hole r = 1"
      "res_played r" "res_winnerSideId r = Some ''d1m1-A''"
    by (auto split: if_splits)
  then show ?thesis using h1 h2 e by (simp only: simp_thms) blast
qed

subsection \<open>Points-based status\<close>

text \<open>
  C7. In a Scramble-Stableford match the status is computed from the sums of the two sides'
  Stableford points over the holes on which both sides' gross is entered: with no such hole
  the label is the dash, the status is not final and tied; the status is final exactly when 18
  holes are played; the leader is the side with the strictly higher sum and equal sums give a
  tie without leader; with a played hole the label is the pair of sums.
\<close>

theorem scramble_totals_status:
  assumes "format m = SCRAMBLE_STABLEFORD"
  shows "let ph = scramblePlayedHoles m holes;
             ta = scrambleTotal m (sideA m) holes;
             tb = scrambleTotal m (sideB m) holes
         in \<exists>st. matchCardStatus m holes playersById = Inr st \<and>
              status_played st = int (length ph) \<and>
              aTotalPts st = Some ta \<and> bTotalPts st = Some tb \<and>
              (isFinal st \<longleftrightarrow> length ph = 18) \<and>
              leaderSideId st =
                (if tb < ta then Some (side_id (sideA m))
                 else if ta < tb then Some (side_id (sideB m)) else None) \<and>
              (isTied st \<longleftrightarrow> ta = tb) \<and>
              status_text st = (if ph = [] then em_dash else showInt ta @ en_dash @ showInt tb)"
proof -
  have z: "scramblePlayedHoles m holes = [] \<Longrightarrow> scrambleTotal m sd holes = 0" for sd
    by (simp add: scrambleTotal_def)
  show ?thesis
    using assms z
    by (auto simp: matchCardStatus_def computeMatchHoles_total stablefordTotalsStatusFromHoles_def
        tallyPoints_scramble Let_def)
qed

lemma sampleScramble_values:
  "length (scramblePlayedHoles sampleScramble course2) = 18"
  "scrambleTotal sampleScramble (sideA sampleScramble) course2 = 14"
  "scrambleTotal sampleScramble (sideB sampleScramble) course2 = 14"
  "showInt 14 = ''14''"
  by code_simp+

theorem scramble_totals_status_witness:
  "format sampleScramble = SCRAMBLE_STABLEFORD \<and>
   length (scramblePlayedHoles sampleScramble course2) = 18 \<and>
   scrambleTotal sampleScramble (sideA sampleScramble) course2 = 14 \<and>
   scrambleTotal sampleScramble (sideB sampleScramble) course2 = 14 \<and>
   (\<exists>st. matchCardStatus sampleScramble course2 samplePlayers = Inr st \<and> isFinal st \<and> isTied st \<and>
         leaderSideId st = None \<and> status_text st = ''14'' @ en_dash @ ''14'')"
proof -
  have h: "format sampleScramble = SCRAMBLE_STABLEFORD" by (simp add: sampleScramble_def)
  have ne: "scramblePlayedHoles sampleScramble course2 \<noteq> []"
    using sampleScramble_values(1) by auto
  from scramble_totals_status [OF h, of course2 samplePlayers]
  obtain st where "matchCardStatus sampleScramble course2 samplePlayers = Inr st" "isFinal st"
      "isTied st" "leaderSideId st = None" "status_text st = ''14'' @ en_dash @ ''14''"
    unfolding Let_def sampleScramble_values using ne by auto
  then show ?thesis using h sampleScramble_values(1,2,3) by blast
qed

subsection \<open>Unknown references\<close>

text \<open>
  C8. The claim: in every format a reference to an unknown player or side is treated as
  missing input, so that the hole is reported as not played or the player's entry is
  discarded. The fourball branch does so (\<open>fourball_unknown_discarded\<close>), the singles branch
  does not. In the sample singles match player \<open>p99\<close> is not in the roster and a gross is
  entered for both players on all 18 holes: hole 1 is reported as played and halved, while
  without the entry of \<open>p99\<close> it is not played, and the match ends \<open>Final (Tied)\<close> with half
  a point for each team.
\<close>

theorem singles_unknown_player_played:
  "samplePlayers (firstKey (playerIds (sideA sampleSingles))) = None \<and>
   computeHole sampleSingles samplePlayers (hd course1) =
     Inr \<lparr> res_hole = 1, res_played = True, res_winnerSideId = None,
           res_details = Singles (Some 5) (Some 6) None (Some 5) \<rparr> \<and>
   computeHole (sampleSingles\<lparr> singlesGrossByPlayer :=
                   setGross (singlesGrossByPlayer sampleSingles) ''p99'' 1 None \<rparr>)
               samplePlayers (hd course1) =
     Inr \<lparr> res_hole = 1, res_played = False, res_winnerSideId = None,
           res_details = Singles None None None None \<rparr> \<and>
   matchCardStatus sampleSingles course1 samplePlayers =
     Inr \<lparr> aHoles = Some 0, bHoles = Some 0, status_played = 18, isFinal = True,
           status_text = ''Final (Tied)'', leaderSideId = None, isTied = True,
           aTotalPts = None, bTotalPts = None \<rparr> \<and>
   map_sum id (\<lambda>pts. (pointsOf pts ''JC'', pointsOf pts ''SG''))
     (matchCardPoints sampleSingles course1 samplePlayers) = Inr (1/2, 1/2)"
  by code_simp

subsection \<open>Clearing the scores of a match\<close>

text \<open>
  C9. The claim: with all gross entries of a match removed the status is \<open>Not Started\<close>, not
  final, without leader and tied, and no team gets a point, in every format. In the scramble
  format the label is the dash and not \<open>Not Started\<close>.
\<close>

theorem cleared_scramble_label:
  "matchCardStatus (neverScored sampleScramble) course2 samplePlayers =
     Inr \<lparr> aHoles = None, bHoles = None, status_played = 0, isFinal = False,
           status_text = em_dash, leaderSideId = None, isTied = True,
           aTotalPts = Some 0, bTotalPts = Some 0 \<rparr> \<and>
   em_dash \<noteq> ''Not Started''"
  by code_simp

text \<open>
  C9 as amended. With all gross entries of a match removed, recomputing gives a status that
  is not final, has no leader, is tied and counts no hole, labelled \<open>Not Started\<close> in the
  Fourball-Net and Singles-Net formats and with the dash in the Scramble-Stableford format;
  it is the status of the match before any score was entered, and both teams get 0 points.
\<close>

theorem cleared_match_status:
  assumes "noEntries (fourballGrossByPlayer m)" and "noEntries (scrambleGrossBySide m)"
    and "noEntries (singlesGrossByPlayer m)"
  shows "\<exists>st pts. matchCardStatus m holes playersById = Inr st \<and>
           status_text st = (if format m = SCRAMBLE_STABLEFORD then em_dash else ''Not Started'') \<and>
           \<not> isFinal st \<and> leaderSideId st = None \<and> isTied st \<and> status_played st = 0 \<and>
           matchCardStatus (neverScored m) holes playersById = Inr st \<and>
           matchCardPoints m holes playersById = Inr pts \<and>
           pointsOf pts (teamId (sideA m)) = 0 \<and> pointsOf pts (teamId (sideB m)) = 0 \<and>
           pointsOf (pointsForFinalMatch_prototype st (sideA m) (sideB m)) (teamId (sideA m)) = 0 \<and>
           pointsOf (pointsForFinalMatch_prototype st (sideA m) (sideB m)) (teamId (sideB m)) = 0"
proof -
  have f: "format (neverScored m) = format m" by (simp add: neverScored_def)
  have n: "noEntries (fourballGrossByPlayer (neverScored m))"
    "noEntries (scrambleGrossBySide (neverScored m))"
    "noEntries (singlesGrossByPlayer (neverScored m))"
    using noEntries_neverScored by auto
  show ?thesis
    by (auto simp: cleared_status [OF assms] cleared_status [OF n] f matchCardPoints_def
        pointsForFinalMatch_def pointsForFinalMatch_prototype_def pointsOf_pointsObject)
qed

lemma noEntries_None: "noEntries None"
  by (simp add: noEntries_def grossAt_def)

theorem cleared_match_status_witness:
  "noEntries (fourballGrossByPlayer clearedFourball) \<and>
   noEntries (scrambleGrossBySide clearedFourball) \<and>
   noEntries (singlesGrossByPlayer clearedFourball) \<and>
   (\<exists>st pts. matchCardStatus clearedFourball course1 samplePlayers = Inr st \<and>
      status_text st = ''Not Started'' \<and> \<not> isFinal st \<and> leaderSideId st = None \<and> isTied st \<and>
      matchCardStatus (neverScored clearedFourball) course1 samplePlayers = Inr st \<and>
      matchCardPoints clearedFourball course1 samplePlayers = Inr pts \<and>
      pointsOf pts ''JC'' = 0 \<and> pointsOf pts ''SG'' = 0)"
proof -
  have h1: "noEntries (fourballGrossByPlayer clearedFourball)"
    by (simp add: clearedFourball_def noEntries_def grossAt_setGross) (simp add: grossAt_def)
  have h2: "noEntries (scrambleGrossBySide clearedFourball)"
    by (simp add: clearedFourball_def sampleFourball_def noEntries_None)
  have h3: "noEntries (singlesGrossByPlayer clearedFourball)"
    by (simp add: clearedFourball_def sampleFourball_def noEntries_None)
  have v: "format clearedFourball = FOURBALL_NET" "teamId (sideA clearedFourball) = ''JC''"
    "teamId (sideB clearedFourball) = ''SG''"
    by (simp_all add: clearedFourball_def sampleFourball_def)
  from cleared_match_status [OF h1 h2 h3, of course1 samplePlayers]
  show ?thesis using h1 h2 h3 by (auto simp: v)
qed

subsection \<open>Conservation of points\<close>

text \<open>
  C10. For sides of distinct teams and every status, the two team values returned by
  \<^verbatim>\<open>pointsForFinalMatch\<close>, in either file, add up to 1 when the status is final and to 0
  when it is not; on a final status without leader whose label does not contain \<open>Tied\<close> the
  prototype gives the point to the team of side B; and over the matches of a day between the
  teams \<open>JC\<close> and \<open>SG\<close> the two accumulators of \<^verbatim>\<open>computeTournamentTotals\<close> add up to the
  number of final matches.
\<close>

theorem points_conserved:
  assumes "teamId sA \<noteq> teamId sB"
  shows "pointsOf (pointsForFinalMatch status sA sB) (teamId sA) +
         pointsOf (pointsForFinalMatch status sA sB) (teamId sB) = (if isFinal status then 1 else 0) \<and>
         pointsOf (pointsForFinalMatch_prototype status sA sB) (teamId sA) +
         pointsOf (pointsForFinalMatch_prototype status sA sB) (teamId sB) = (if isFinal status then 1 else 0) \<and>
         (isFinal status \<and> leaderSideId status = None \<and> \<not> includes_str (status_text status) ''Tied'' \<longrightarrow>
            pointsOf (pointsForFinalMatch_prototype status sA sB) (teamId sB) = 1 \<and>
            pointsOf (pointsForFinalMatch_prototype status sA sB) (teamId sA) = 0) \<and>
         ((\<forall>m \<in> set ms. teamId (sideA m) = ''JC'' \<and> teamId (sideB m) = ''SG'' \<or>
                         teamId (sideA m) = ''SG'' \<and> teamId (sideB m) = ''JC'') \<longrightarrow>
            (\<exists>jc sg. dayPoints ms holes playersById (0, 0) = Inr (jc, sg) \<and>
                     jc + sg = of_nat (finalMatches ms holes playersById)))"
proof -
  have proto: "isFinal status \<and> leaderSideId status = None \<and>
               \<not> includes_str (status_text status) ''Tied'' \<longrightarrow>
            pointsOf (pointsForFinalMatch_prototype status sA sB) (teamId sB) = 1 \<and>
            pointsOf (pointsForFinalMatch_prototype status sA sB) (teamId sA) = 0"
    using assms by (auto simp: pointsForFinalMatch_prototype_def pointsOf_pointsObject Let_def)
  have day: "\<exists>jc sg. dayPoints ms holes playersById (0, 0) = Inr (jc, sg) \<and>
                     jc + sg = of_nat (finalMatches ms holes playersById)"
    if "\<forall>m \<in> set ms. teamId (sideA m) = ''JC'' \<and> teamId (sideB m) = ''SG'' \<or>
                       teamId (sideA m) = ''SG'' \<and> teamId (sideB m) = ''JC''"
    using dayPoints_conserved [OF that, of holes playersById 0 0] by simp
  show ?thesis
    using points_sum_app [OF assms, of status] points_sum_prototype [OF assms, of status] proto day
    by blast
qed

lemma conserved_values:
  "teamId (sideA sampleScramble) = ''JC''" "teamId (sideB sampleScramble) = ''SG''"
  "isFinal tiedTotalsStatus" "leaderSideId tiedTotalsStatus = None"
  "\<not> includes_str (status_text tiedTotalsStatus) ''Tied''"
  "finalMatches [sampleScramble, sampleFourball] course2 samplePlayers = 1"
  "dayPoints [sampleScramble, sampleFourball] course2 samplePlayers (0, 0) = Inr (1/2, 1/2)"
  by code_simp+

theorem points_conserved_witness:
  "teamId (sideA sampleScramble) \<noteq> teamId (sideB sampleScramble) \<and>
   isFinal tiedTotalsStatus \<and> leaderSideId tiedTotalsStatus = None \<and>
   \<not> includes_str (status_text tiedTotalsStatus) ''Tied'' \<and>
   pointsOf (pointsForFinalMatch tiedTotalsStatus (sideA sampleScramble) (sideB sampleScramble)) ''JC'' +
   pointsOf (pointsForFinalMatch tiedTotalsStatus (sideA sampleScramble) (sideB sampleScramble)) ''SG'' = 1 \<and>
   pointsOf (pointsForFinalMatch_prototype tiedTotalsStatus (sideA sampleScramble) (sideB sampleScramble)) ''SG'' = 1 \<and>
   pointsOf (pointsForFinalMatch_prototype tiedTotalsStatus (sideA sampleScramble) (sideB sampleScramble)) ''JC'' = 0 \<and>
   list_all (\<lambda>m. teamId (sideA m) = ''JC'' \<and> teamId (sideB m) = ''SG'') [sampleScramble, sampleFourball] \<and>
   dayPoints [sampleScramble, sampleFourball] course2 samplePlayers (0, 0) = Inr (1/2, 1/2) \<and>
   finalMatches [sampleScramble, sampleFourball] course2 samplePlayers = 1"
proof -
  have h: "teamId (sideA sampleScramble) \<noteq> teamId (sideB sampleScramble)"
    by (simp add: conserved_values)
  have t: "teamId (sideA sampleFourball) = ''JC''" "teamId (sideB sampleFourball) = ''SG''"
    by (simp_all add: sampleFourball_def)
  from points_conserved [OF h, of tiedTotalsStatus "[sampleScramble, sampleFourball]" course2 samplePlayers]
  show ?thesis using h t by (simp add: conserved_values del: dayPoints.simps)
qed

end
